theory Spec2Isabelle
  imports Complex_Main "HOL-Library.Sublist" "HOL-Library.Char_ord" "HOL-Library.List_Lexorder"
begin

section \<open>Local classifier (Zenora.tsx, analyzeLocalMood)\<close>

text \<open>
  JavaScript strings are modelled as \<open>string\<close> (the UTF-8 bytes of the text). All keywords
  of the classifier are ASCII letters, and \<open>toLowerCase\<close> maps no non-ASCII character to
  a sequence that can complete one of them, so lowering the bytes \<open>A\<close>..\<open>Z\<close> and leaving
  every other byte alone decides the same \<open>includes\<close> tests as the source.
\<close>

definition toLowerChar :: "char \<Rightarrow> char" where
  "toLowerChar c =
     (let n = (of_char c :: nat) in if 65 \<le> n \<and> n \<le> 90 then char_of (n + 32) else c)"

definition toLowerCase :: "string \<Rightarrow> string" where
  "toLowerCase s = map toLowerChar s"

text \<open>\<open>s.includes(sub)\<close>: \<open>sub\<close> occurs in \<open>s\<close> as a contiguous substring.\<close>

fun str_includes :: "string \<Rightarrow> string \<Rightarrow> bool" where
  "str_includes [] sub = (sub = [])"
| "str_includes (c # cs) sub = (prefix sub (c # cs) \<or> str_includes cs sub)"

record LocalMood =
  emoji :: string
  mood :: string
  score :: int

text \<open>The emoji of the source, as their UTF-8 bytes.\<close>

definition emoji_pensive :: string where
  "emoji_pensive = [CHR 0xF0, CHR 0x9F, CHR 0x98, CHR 0x94]"

definition emoji_pouting :: string where
  "emoji_pouting = [CHR 0xF0, CHR 0x9F, CHR 0x98, CHR 0xA1]"

definition emoji_smiling :: string where
  "emoji_smiling = [CHR 0xF0, CHR 0x9F, CHR 0x98, CHR 0x8A]"

definition emoji_anxious :: string where
  "emoji_anxious = [CHR 0xF0, CHR 0x9F, CHR 0x98, CHR 0xB0]"

definition emoji_relieved :: string where
  "emoji_relieved = [CHR 0xF0, CHR 0x9F, CHR 0x98, CHR 0x8C]"

definition emoji_slight_smile :: string where
  "emoji_slight_smile = [CHR 0xF0, CHR 0x9F, CHR 0x99, CHR 0x82]"

definition analyzeLocalMood :: "string \<Rightarrow> LocalMood" where
  "analyzeLocalMood message =
     (let lower = toLowerCase message in
      if str_includes lower ''sad'' \<or> str_includes lower ''tired'' \<or> str_includes lower ''upset''
        then \<lparr>emoji = emoji_pensive, mood = ''Sad'', score = 45\<rparr>
      else if str_includes lower ''angry'' \<or> str_includes lower ''mad''
        then \<lparr>emoji = emoji_pouting, mood = ''Angry'', score = 35\<rparr>
      else if str_includes lower ''happy'' \<or> str_includes lower ''great'' \<or> str_includes lower ''good''
        then \<lparr>emoji = emoji_smiling, mood = ''Happy'', score = 85\<rparr>
      else if str_includes lower ''anxious'' \<or> str_includes lower ''worried''
        then \<lparr>emoji = emoji_anxious, mood = ''Anxious'', score = 55\<rparr>
      else if str_includes lower ''relax'' \<or> str_includes lower ''calm''
        then \<lparr>emoji = emoji_relieved, mood = ''Calm'', score = 80\<rparr>
      else \<lparr>emoji = emoji_slight_smile, mood = ''Neutral'', score = 70\<rparr>)"

subsection \<open>The rule table of the specification\<close>

text \<open>
  The ordered rule table of section 4.1, with the labels written as the code returns them
  (capitalised), and its reading: the first rule one of whose keywords occurs in the
  lowercased text gives the label and the score; no rule gives the fallback.
\<close>

definition rule_table :: "(string list \<times> string \<times> int) list" where
  "rule_table =
     [([''sad'', ''tired'', ''upset''], ''Sad'', 45),
      ([''angry'', ''mad''], ''Angry'', 35),
      ([''happy'', ''great'', ''good''], ''Happy'', 85),
      ([''anxious'', ''worried''], ''Anxious'', 55),
      ([''relax'', ''calm''], ''Calm'', 80)]"

definition rule_matches :: "string \<Rightarrow> string list \<times> string \<times> int \<Rightarrow> bool" where
  "rule_matches text r = list_ex (\<lambda>k. sublist k (toLowerCase text)) (fst r)"

definition classify_by_table :: "string \<Rightarrow> string \<times> int" where
  "classify_by_table text =
     (case find (rule_matches text) rule_table of
        Some r \<Rightarrow> snd r
      | None \<Rightarrow> (''Neutral'', 70))"

section \<open>Remote inference result (Zenora.tsx, handleSendMessage)\<close>

text \<open>The persisted mood tracker state of the chat screen (interface \<open>MoodData\<close>).\<close>

record MoodData =
  moodScore :: int
  todayMood :: string
  motivation :: "string list"

record EmotionAnalysis =
  emotions :: "string list"
  intensity :: int

definition emoji_weary :: string where
  "emoji_weary = [CHR 0xF0, CHR 0x9F, CHR 0x98, CHR 0xA9]"

definition emoji_sleeping :: string where
  "emoji_sleeping = [CHR 0xF0, CHR 0x9F, CHR 0x98, CHR 0xB4]"

definition emojiMap :: "string \<Rightarrow> string option" where
  "emojiMap = map_of
     [(''happy'', emoji_smiling),
      (''calm'', emoji_relieved),
      (''sad'', emoji_pensive),
      (''angry'', emoji_pouting),
      (''anxious'', emoji_anxious),
      (''stressed'', emoji_weary),
      (''relaxed'', emoji_sleeping)]"

definition toUpperChar :: "char \<Rightarrow> char" where
  "toUpperChar c =
     (let n = (of_char c :: nat) in if 97 \<le> n \<and> n \<le> 122 then char_of (n - 32) else c)"

text \<open>\<open>emotion.charAt(0).toUpperCase() + emotion.slice(1)\<close>, for a label of ASCII letters.\<close>

definition capitalize :: "string \<Rightarrow> string" where
  "capitalize s = (case s of [] \<Rightarrow> [] | c # cs \<Rightarrow> toUpperChar c # cs)"

text \<open>
  The score the emotion branch stores:
  \<open>Math.min(100, Math.max(0, 100 - intensity * 10))\<close>, for an integer intensity.
\<close>

definition remoteMoodScore :: "int \<Rightarrow> int" where
  "remoteMoodScore i = min 100 (max 0 (100 - i * 10))"

text \<open>
  The branch \<open>if (data.emotionAnalysis)\<close>: the new mood data that is put in the state and
  written to storage. \<open>emotions[0] || 'Calm'\<close> takes the default for a missing or empty
  first label; the emoji lookup is that of the object literal's own keys.
\<close>

definition emotionMood :: "MoodData \<Rightarrow> EmotionAnalysis \<Rightarrow> MoodData" where
  "emotionMood moodData ea =
     (let emotion = (case emotions ea of [] \<Rightarrow> ''Calm'' | e # _ \<Rightarrow> if e = [] then ''Calm'' else e);
          em = (case emojiMap (toLowerCase emotion) of None \<Rightarrow> emoji_slight_smile | Some e \<Rightarrow> e)
      in moodData\<lparr>moodScore := remoteMoodScore (intensity ea),
                   todayMood := em @ '' '' @ capitalize emotion\<rparr>)"

text \<open>\<open>clamp(lo, hi, x)\<close> as the specification writes it: \<open>x\<close> bounded below by \<open>lo\<close> and above by \<open>hi\<close>.\<close>

definition clamp :: "int \<Rightarrow> int \<Rightarrow> int \<Rightarrow> int" where
  "clamp lo hi x = (if x < lo then lo else if hi < x then hi else x)"

section \<open>Current mood context (MoodContext.tsx)\<close>

record MoodPayload =
  payload_mood :: string
  payload_value :: "int option"
  payload_source :: "string option"
  payload_at :: "string option"

text \<open>
  \<open>setMood\<close>: the new provider state. \<open>now\<close> is \<open>new Date().toISOString()\<close> at the call;
  \<open>m.at ?? now\<close> keeps a timestamp that is present.
\<close>

definition setMood :: "string \<Rightarrow> MoodPayload \<Rightarrow> MoodPayload option" where
  "setMood now m =
     Some (m\<lparr>payload_at := Some (case payload_at m of None \<Rightarrow> now | Some a \<Rightarrow> a)\<rparr>)"

section \<open>Average mood (Insights.tsx, calculateAverageMood)\<close>

text \<open>
  One day of the history. \<open>date\<close> is the ISO date \<open>YYYY-MM-DD\<close>; \<open>value\<close> is the result
  of \<open>Math.round\<close>, an integer.
\<close>

record MoodEntry =
  date :: string
  entry_mood :: string
  "value" :: int

text \<open>
  The values the screen stores: \<open>Math.round((moodScore / 100) * 5)\<close> of a score between
  0 and 100 is an integer between 0 and 5.
\<close>

definition on_scale :: "MoodEntry \<Rightarrow> bool" where
  "on_scale d = (0 \<le> value d \<and> value d \<le> 5)"

text \<open>
  \<open>parseFloat(x.toFixed(1))\<close>: \<open>toFixed\<close> takes the sign off, picks the integer \<open>n\<close> with
  \<open>n / 10\<close> nearest to the magnitude, the larger one on a tie, and \<open>parseFloat\<close> reads the
  decimal back. The source computes in binary64; the model computes in rationals and is
  the source's computation for entries on the scale (\<open>on_scale\<close>) and a length of at most
  7 only: there the sum is an integer of at most 35 and exact, an exact tie (a quotient
  ending in .25 or .75) is itself a double, any other quotient is at least 1/140 away from
  a tie and its double much nearer to it, so \<open>toFixed\<close> picks the same \<open>n\<close>, and the
  rational \<open>n / 10\<close> stands for the double that \<open>parseFloat\<close> returns for that decimal.
  For larger values the double sum and quotient are rounded and the model says nothing
  about the source.
\<close>

definition toFixed1 :: "rat \<Rightarrow> rat" where
  "toFixed1 x =
     (if x < 0 then - (of_int \<lfloor>- x * 10 + 1 / 2\<rfloor> / 10) else of_int \<lfloor>x * 10 + 1 / 2\<rfloor> / 10)"

definition calculateAverageMood :: "MoodEntry list \<Rightarrow> rat" where
  "calculateAverageMood data =
     (if length data = 0 then 0
      else let sum = foldl (\<lambda>acc d. acc + value d) 0 data
           in toFixed1 (of_int sum / of_nat (length data)))"

text \<open>The arithmetic mean of the entries' values, as the specification words it.\<close>

definition arithmetic_mean :: "MoodEntry list \<Rightarrow> rat" where
  "arithmetic_mean H = of_int (sum_list (map value H)) / of_nat (length H)"

section \<open>Streak (Dashboard.tsx, calculateStreak)\<close>

text \<open>
  A calendar day is its day number (an \<open>int\<close>); \<open>toDateString\<close> of two instants is equal
  exactly when they fall on the same local calendar day, and \<open>setDate(getDate() - 1)\<close>
  moves to the day before. \<open>today\<close> is the day of \<open>new Date()\<close> at the call.
\<close>

fun streak_loop :: "int \<Rightarrow> nat \<Rightarrow> int list \<Rightarrow> nat" where
  "streak_loop currentDate streak [] = streak"
| "streak_loop currentDate streak (d # dates) =
     (if d = currentDate then streak_loop (currentDate - 1) (streak + 1) dates else streak)"

definition calculateStreak :: "int \<Rightarrow> int list \<Rightarrow> nat" where
  "calculateStreak today dates = streak_loop today 0 dates"

section \<open>Browser storage and JSON\<close>

text \<open>
  A string held by \<open>localStorage\<close>, as \<open>JSON.parse\<close> sees it: either the text that
  \<open>JSON.stringify\<close> writes for a value (kept as that value: for the plain data of these
  records, numbers, strings and arrays of strings, parsing the written text gives the value
  back), or a text that \<open>JSON.parse\<close> rejects (kept as the text). \<open>getItem\<close> of a key
  that is absent returns \<open>null\<close>, here \<open>None\<close>.
\<close>

datatype 'a stored = Json 'a | Malformed string

datatype error = SyntaxError

definition JSON_stringify :: "'a \<Rightarrow> 'a stored" where
  "JSON_stringify v = Json v"

fun JSON_parse :: "'a stored \<Rightarrow> error + 'a" where
  "JSON_parse (Json v) = Inr v"
| "JSON_parse (Malformed s) = Inl SyntaxError"

text \<open>The truthiness of a stored string: only the empty string is falsy.\<close>

fun truthy :: "'a stored \<Rightarrow> bool" where
  "truthy (Json v) = True"
| "truthy (Malformed s) = (s \<noteq> [])"

text \<open>The object \<open>{ averageMood, streak, timePracticed, exercises }\<close> of the insights screen.\<close>

record InsightsData =
  averageMood :: rat
  streak :: int
  timePracticed :: int
  exercises :: int

text \<open>The keys \<open>zenora-mood\<close>, \<open>zenora_today_mood\<close> and \<open>insightsData\<close>.\<close>

record localStorage =
  zenora_mood :: "MoodData stored option"
  zenora_today_mood :: "MoodPayload stored option"
  insightsData :: "InsightsData stored option"

section \<open>Cold start of the mood provider (MoodContext.tsx, MoodProvider)\<close>

text \<open>The body of the \<open>try\<close> block, then the \<open>catch\<close> that turns any failure into \<open>null\<close>.\<close>

definition initMood_try :: "localStorage \<Rightarrow> error + MoodPayload option" where
  "initMood_try ls =
     (case zenora_today_mood ls of
        None \<Rightarrow> Inr None
      | Some raw \<Rightarrow>
          if truthy raw
          then (case JSON_parse raw of Inl e \<Rightarrow> Inl e | Inr v \<Rightarrow> Inr (Some v))
          else Inr None)"

definition initMood :: "localStorage \<Rightarrow> MoodPayload option" where
  "initMood ls = (case initMood_try ls of Inl e \<Rightarrow> None | Inr m \<Rightarrow> m)"

text \<open>The effect on \<open>[mood]\<close>: write the payload, or remove the key.\<close>

definition persistMood :: "MoodPayload option \<Rightarrow> localStorage \<Rightarrow> localStorage" where
  "persistMood m ls =
     (case m of
        Some p \<Rightarrow> ls\<lparr>zenora_today_mood := Some (JSON_stringify p)\<rparr>
      | None \<Rightarrow> ls\<lparr>zenora_today_mood := None\<rparr>)"

section \<open>Cold start of the chat screen (Zenora.tsx, Zenora)\<close>

definition defaultMoodData :: MoodData where
  "defaultMoodData =
     \<lparr>moodScore = 75,
      todayMood = emoji_smiling @ '' Happy'',
      motivation =
        [''Keep growing every day!'',
         ''You're stronger than you think.'',
         ''Small steps make a big difference.'']\<rparr>"

text \<open>
  The effect that loads the saved mood data: \<open>if (saved) setMoodData(JSON.parse(saved))\<close>.
  There is no \<open>try\<close> around the parse: its exception leaves the effect.
\<close>

definition loadSavedMood :: "localStorage \<Rightarrow> MoodData \<Rightarrow> error + MoodData" where
  "loadSavedMood ls moodData =
     (case zenora_mood ls of
        None \<Rightarrow> Inr moodData
      | Some saved \<Rightarrow>
          if truthy saved
          then (case JSON_parse saved of Inl e \<Rightarrow> Inl e | Inr v \<Rightarrow> Inr v)
          else Inr moodData)"

text \<open>The effect on \<open>[moodData]\<close>: write the mood data under \<open>zenora-mood\<close>.\<close>

definition saveMood :: "MoodData \<Rightarrow> localStorage \<Rightarrow> localStorage" where
  "saveMood moodData ls = ls\<lparr>zenora_mood := Some (JSON_stringify moodData)\<rparr>"

text \<open>
  Mounting the screen: the state starts at the default, the loading effect runs, and the
  saving effect writes the state it ends with. The result is the mood data in the state
  and the storage, or the exception of the loading effect.
\<close>

definition zenoraMount :: "localStorage \<Rightarrow> error + (MoodData \<times> localStorage)" where
  "zenoraMount ls =
     (case loadSavedMood ls defaultMoodData of
        Inl e \<Rightarrow> Inl e
      | Inr moodData \<Rightarrow> Inr (moodData, saveMood moodData (saveMood defaultMoodData ls)))"

section \<open>Mood history of the insights screen (Insights.tsx, updateFromStorage)\<close>

text \<open>\<open>Math.round\<close>: the nearest integer, a half going up.\<close>

definition Math_round :: "rat \<Rightarrow> int" where
  "Math_round x = \<lfloor>x + 1 / 2\<rfloor>"

text \<open>\<open>xs.slice(-n)\<close>: the last \<open>n\<close> elements, all of them when there are fewer.\<close>

definition slice_last :: "nat \<Rightarrow> 'a list \<Rightarrow> 'a list" where
  "slice_last n xs = drop (length xs - n) xs"

record InsightsState =
  st_moodData :: "MoodEntry list"
  st_averageMood :: rat
  st_streak :: int
  st_timePracticed :: int
  st_exercises :: int

text \<open>The initial values of the \<open>useState\<close> hooks: the history starts empty.\<close>

definition initialInsights :: InsightsState where
  "initialInsights =
     \<lparr>st_moodData = [], st_averageMood = 42 / 10, st_streak = 7,
      st_timePracticed = 89, st_exercises = 12\<rparr>"

text \<open>
  The entry built from the parsed mood data; \<open>today\<close> is
  \<open>new Date().toISOString().split("T")[0]\<close> at the call.
\<close>

definition todayEntry :: "string \<Rightarrow> MoodData \<Rightarrow> MoodEntry" where
  "todayEntry today parsed =
     (let todayValue = Math_round ((of_int (moodScore parsed) / 100) * 5)
      in \<lparr>date = today, entry_mood = todayMood parsed, value = todayValue\<rparr>)"

text \<open>The new history computed by the updater passed to \<open>setMoodData\<close>.\<close>

definition updateMoodData :: "string \<Rightarrow> MoodEntry \<Rightarrow> MoodEntry list \<Rightarrow> MoodEntry list" where
  "updateMoodData today entry prev =
     (let filtered = filter (\<lambda>d. date d \<noteq> today) prev;
          updated = slice_last 6 filtered @ [entry]
      in updated)"

definition updateFromStorage ::
    "string \<Rightarrow> localStorage \<Rightarrow> InsightsState \<Rightarrow> error + (InsightsState \<times> localStorage)" where
  "updateFromStorage today ls st =
     (case zenora_mood ls of
        None \<Rightarrow> Inr (st, ls)
      | Some savedMood \<Rightarrow>
          if truthy savedMood
          then (case JSON_parse savedMood of
                  Inl e \<Rightarrow> Inl e
                | Inr parsed \<Rightarrow>
                    let updated = updateMoodData today (todayEntry today parsed) (st_moodData st);
                        avg = calculateAverageMood updated
                    in Inr (st\<lparr>st_moodData := updated, st_averageMood := avg\<rparr>,
                            ls\<lparr>insightsData := Some (JSON_stringify
                                 \<lparr>averageMood = avg, streak = st_streak st,
                                  timePracticed = st_timePracticed st,
                                  exercises = st_exercises st\<rparr>)\<rparr>))
          else Inr (st, ls))"

text \<open>
  A reload of the insights screen: the component mounts with its initial state and the
  effect calls \<open>updateFromStorage\<close> once.
\<close>

definition insightsMount :: "string \<Rightarrow> localStorage \<Rightarrow> error + (InsightsState \<times> localStorage)" where
  "insightsMount today ls = updateFromStorage today ls initialInsights"

text \<open>
  A sequence of recordings, each the day it is made on and the mood data read that day,
  applied to a history in order.
\<close>

fun recordAll :: "(string \<times> MoodData) list \<Rightarrow> MoodEntry list \<Rightarrow> MoodEntry list" where
  "recordAll [] h = h"
| "recordAll ((today, parsed) # evs) h =
     recordAll evs (updateMoodData today (todayEntry today parsed) h)"

text \<open>
  The same sequence on the screen itself: for each recording the chat screen saves the mood
  data and the insights screen then runs \<open>updateFromStorage\<close> on that day.
\<close>

fun insightsRun ::
    "(string \<times> MoodData) list \<Rightarrow> InsightsState \<times> localStorage
      \<Rightarrow> error + (InsightsState \<times> localStorage)" where
  "insightsRun [] s = Inr s"
| "insightsRun ((today, moodData) # evs) s =
     (case updateFromStorage today (saveMood moodData (snd s)) (fst s) of
        Inl e \<Rightarrow> Inl e
      | Inr s' \<Rightarrow> insightsRun evs s')"

definition historyOf :: "error + (InsightsState \<times> localStorage) \<Rightarrow> error + MoodEntry list" where
  "historyOf r = (case r of Inl e \<Rightarrow> Inl e | Inr s \<Rightarrow> Inr (st_moodData (fst s)))"

text \<open>The history a reload on day \<open>today\<close> shows, from the storage a run has left.\<close>

definition reloadHistory ::
    "string \<Rightarrow> error + (InsightsState \<times> localStorage) \<Rightarrow> error + MoodEntry list" where
  "reloadHistory today r =
     (case r of Inl e \<Rightarrow> Inl e | Inr s \<Rightarrow> historyOf (insightsMount today (snd s)))"

definition emptyStorage :: localStorage where
  "emptyStorage = \<lparr>zenora_mood = None, zenora_today_mood = None, insightsData = None\<rparr>"

section \<open>Example recordings\<close>

text \<open>Nine days recorded in ascending order of date.\<close>

definition nine_days :: "(string \<times> MoodData) list" where
  "nine_days =
     [(''2024-01-01'', defaultMoodData), (''2024-01-02'', defaultMoodData),
      (''2024-01-03'', defaultMoodData), (''2024-01-04'', defaultMoodData),
      (''2024-01-05'', defaultMoodData), (''2024-01-06'', defaultMoodData),
      (''2024-01-07'', defaultMoodData), (''2024-01-08'', defaultMoodData),
      (''2024-01-09'', defaultMoodData)]"

text \<open>Two samples recorded for the same day, after one for the day before.\<close>

definition same_day_twice :: "(string \<times> MoodData) list" where
  "same_day_twice =
     [(''2024-01-01'', defaultMoodData),
      (''2024-01-02'', defaultMoodData),
      (''2024-01-02'', \<lparr>moodScore = 45, todayMood = emoji_pensive @ '' Sad'', motivation = []\<rparr>)]"

text \<open>A sample on each of two consecutive days.\<close>

definition two_days :: "(string \<times> MoodData) list" where
  "two_days =
     [(''2024-01-01'', defaultMoodData),
      (''2024-01-02'', \<lparr>moodScore = 45, todayMood = emoji_pensive @ '' Sad'', motivation = []\<rparr>)]"

section \<open>Properties of the local classifier\<close>

lemma str_includes_sublist: "str_includes s sub \<longleftrightarrow> sublist sub s"
  by (induction s) (auto simp: sublist_Cons_right)

lemma toLowerChar_idem: "toLowerChar (toLowerChar c) = toLowerChar c"
proof (cases "65 \<le> (of_char c :: nat) \<and> (of_char c :: nat) \<le> 90")
  case True
  then have "of_char (char_of (of_char c + 32 :: nat)) = (of_char c + 32 :: nat)"
    by (simp add: of_char_of)
  with True show ?thesis
    by (simp add: toLowerChar_def Let_def)
next
  case False
  then show ?thesis
    by (auto simp: toLowerChar_def Let_def)
qed

lemma toLowerCase_idem: "toLowerCase (toLowerCase s) = toLowerCase s"
  by (simp add: toLowerCase_def toLowerChar_idem)

lemma toLowerChar_toUpperChar: "toLowerChar (toUpperChar c) = toLowerChar c"
proof (cases "97 \<le> (of_char c :: nat) \<and> (of_char c :: nat) \<le> 122")
  case True
  define n :: nat where "n = of_char c"
  from True have r: "97 \<le> n" "n \<le> 122" by (simp_all add: n_def)
  have up: "toUpperChar c = char_of (n - 32)"
    using r by (simp add: toUpperChar_def Let_def n_def)
  have "n - 32 < 256" using r by linarith
  then have code: "(of_char (char_of (n - 32)) :: nat) = n - 32"
    by (simp add: of_char_of)
  have rng: "65 \<le> n - 32" "n - 32 \<le> 90" using r by linarith+
  have "n - 32 + 32 = n" using r by linarith
  then have "toLowerChar (char_of (n - 32)) = char_of n"
    using rng by (simp add: toLowerChar_def Let_def code)
  also have "char_of n = c" by (simp add: n_def)
  also have "c = toLowerChar c"
    using r by (simp add: toLowerChar_def Let_def n_def [symmetric])
  finally show ?thesis by (simp add: up)
next
  case False
  then show ?thesis
    by (auto simp: toUpperChar_def Let_def)
qed

lemma toLowerCase_upper: "toLowerCase (map toUpperChar s) = toLowerCase s"
  by (simp add: toLowerCase_def toLowerChar_toUpperChar)

text \<open>
  C1 (as stated, fails): the label returned for "I feel sad and tired" is the capitalised
  string "Sad", not "sad".
\<close>

theorem C1_label_counterexample:
  "mood (analyzeLocalMood ''I feel sad and tired'') \<noteq> ''sad''"
  by code_simp

text \<open>
  C1 (amended): for "I feel sad and tired" the classifier returns the label "Sad" ("sad"
  once lowercased) with score 45; the text is lowercased before matching, so the text in
  lower case and the text in upper case get the result of the text itself, and for every
  text the label and score are those of the first rule of the ordered table one of whose
  keywords is a substring of the lowercased text, whatever later rules would match too.
\<close>

theorem C1_classifier_precedence:
  "mood (analyzeLocalMood ''I feel sad and tired'') = ''Sad''
   \<and> toLowerCase (mood (analyzeLocalMood ''I feel sad and tired'')) = ''sad''
   \<and> score (analyzeLocalMood ''I feel sad and tired'') = 45
   \<and> analyzeLocalMood (toLowerCase text) = analyzeLocalMood text
   \<and> analyzeLocalMood (map toUpperChar text) = analyzeLocalMood text
   \<and> (mood (analyzeLocalMood text), score (analyzeLocalMood text)) = classify_by_table text"
proof -
  have a: "mood (analyzeLocalMood ''I feel sad and tired'') = ''Sad''"
    by code_simp
  have a': "toLowerCase (mood (analyzeLocalMood ''I feel sad and tired'')) = ''sad''"
    by code_simp
  have b: "score (analyzeLocalMood ''I feel sad and tired'') = 45"
    by code_simp
  have c: "analyzeLocalMood (toLowerCase text) = analyzeLocalMood text"
    by (simp add: analyzeLocalMood_def toLowerCase_idem)
  have c': "analyzeLocalMood (map toUpperChar text) = analyzeLocalMood text"
    by (simp add: analyzeLocalMood_def toLowerCase_upper)
  have d: "(mood (analyzeLocalMood text), score (analyzeLocalMood text)) = classify_by_table text"
    by (simp add: analyzeLocalMood_def classify_by_table_def rule_table_def rule_matches_def
        str_includes_sublist Let_def)
  from a a' b c c' d show ?thesis by blast
qed

text \<open>
  C2 (as stated, fails): the fallback label is the capitalised string "Neutral", not
  "neutral"; the empty input already shows it.
\<close>

theorem C2_label_counterexample:
  "mood (analyzeLocalMood []) \<noteq> ''neutral''"
  by code_simp

text \<open>
  C2 (amended): the classifier is a total function with no failure branch, and when no
  keyword of any rule occurs in the lowercased text (the empty text included) it returns
  the fixed fallback: label "Neutral" and score 70.
\<close>

theorem C2_neutral_fallback:
  "\<not> list_ex (rule_matches text) rule_table
   \<Longrightarrow> analyzeLocalMood text = \<lparr>emoji = emoji_slight_smile, mood = ''Neutral'', score = 70\<rparr>"
  by (simp add: analyzeLocalMood_def rule_table_def rule_matches_def str_includes_sublist Let_def)

theorem C2_neutral_fallback_witness:
  "\<not> list_ex (rule_matches []) rule_table
   \<and> analyzeLocalMood [] = \<lparr>emoji = emoji_slight_smile, mood = ''Neutral'', score = 70\<rparr>
   \<and> \<not> list_ex (rule_matches ''Just a normal DAY'') rule_table
   \<and> analyzeLocalMood ''Just a normal DAY''
       = \<lparr>emoji = emoji_slight_smile, mood = ''Neutral'', score = 70\<rparr>"
proof -
  have h1: "\<not> list_ex (rule_matches []) rule_table"
    by code_simp
  have h2: "\<not> list_ex (rule_matches ''Just a normal DAY'') rule_table"
    by code_simp
  from h1 h2 C2_neutral_fallback [OF h1] C2_neutral_fallback [OF h2] show ?thesis
    by blast
qed

section \<open>Properties of the average\<close>

lemma round_half_bounds:
  fixes y :: rat
  shows "of_int \<lfloor>y + 1 / 2\<rfloor> \<le> y + 1 / 2" and "y - 1 / 2 < of_int \<lfloor>y + 1 / 2\<rfloor>"
proof -
  show "of_int \<lfloor>y + 1 / 2\<rfloor> \<le> y + 1 / 2" by (rule of_int_floor_le)
  have "y + 1 / 2 < of_int \<lfloor>y + 1 / 2\<rfloor> + 1" by linarith
  then show "y - 1 / 2 < of_int \<lfloor>y + 1 / 2\<rfloor>" by linarith
qed

lemma toFixed1_near: "\<bar>toFixed1 x - x\<bar> \<le> 1 / 20"
proof (cases "x < 0")
  case True
  define r :: rat where "r = of_int \<lfloor>- x * 10 + 1 / 2\<rfloor>"
  have "r \<le> - x * 10 + 1 / 2" "- x * 10 - 1 / 2 < r"
    unfolding r_def by (rule round_half_bounds)+
  moreover have "toFixed1 x = - (r / 10)"
    using True by (simp add: toFixed1_def r_def)
  ultimately show ?thesis by (auto simp: abs_if)
next
  case False
  define r :: rat where "r = of_int \<lfloor>x * 10 + 1 / 2\<rfloor>"
  have "r \<le> x * 10 + 1 / 2" "x * 10 - 1 / 2 < r"
    unfolding r_def by (rule round_half_bounds)+
  moreover have "toFixed1 x = r / 10"
    using False by (simp add: toFixed1_def r_def)
  ultimately show ?thesis by (auto simp: abs_if)
qed

lemma toFixed1_tie: "\<bar>toFixed1 x - x\<bar> = 1 / 20 \<Longrightarrow> \<bar>x\<bar> < \<bar>toFixed1 x\<bar>"
proof (cases "x < 0")
  case True
  assume a: "\<bar>toFixed1 x - x\<bar> = 1 / 20"
  define r :: rat where "r = of_int \<lfloor>- x * 10 + 1 / 2\<rfloor>"
  have "r \<le> - x * 10 + 1 / 2" "- x * 10 - 1 / 2 < r"
    unfolding r_def by (rule round_half_bounds)+
  moreover have "toFixed1 x = - (r / 10)"
    using True by (simp add: toFixed1_def r_def)
  ultimately show ?thesis using a True by (auto simp: abs_if split: if_splits)
next
  case False
  assume a: "\<bar>toFixed1 x - x\<bar> = 1 / 20"
  define r :: rat where "r = of_int \<lfloor>x * 10 + 1 / 2\<rfloor>"
  have "r \<le> x * 10 + 1 / 2" "x * 10 - 1 / 2 < r"
    unfolding r_def by (rule round_half_bounds)+
  moreover have "toFixed1 x = r / 10"
    using False by (simp add: toFixed1_def r_def)
  ultimately show ?thesis using a False by (auto simp: abs_if split: if_splits)
qed

lemma toFixed1_tenth: "\<exists>n::int. toFixed1 x = of_int n / 10"
  unfolding toFixed1_def
  by (metis minus_divide_left of_int_minus)

lemma foldl_sum: "foldl (\<lambda>acc d. acc + value d) a data = a + sum_list (map value data)"
  by (induction data arbitrary: a) auto

lemma avg_mean: "H \<noteq> [] \<Longrightarrow> calculateAverageMood H = toFixed1 (arithmetic_mean H)"
  by (simp add: calculateAverageMood_def arithmetic_mean_def foldl_sum)

lemma Math_round_scale:
  assumes "0 \<le> s" "s \<le> (100 :: int)"
  shows "0 \<le> Math_round ((of_int s / 100) * 5)" "Math_round ((of_int s / 100) * 5) \<le> 5"
proof -
  have lo: "(0 :: rat) \<le> of_int s" using assms(1) by simp
  have hi: "(of_int s :: rat) \<le> 100" using assms(2) by (metis of_int_le_iff of_int_numeral)
  have "(0 :: rat) \<le> (of_int s / 100) * 5 + 1 / 2" using lo by simp
  then show "0 \<le> Math_round ((of_int s / 100) * 5)"
    by (simp add: Math_round_def)
  have "(of_int s / 100) * 5 + 1 / 2 < (6 :: rat)" using hi by simp
  then have "\<lfloor>(of_int s / 100) * 5 + 1 / 2 :: rat\<rfloor> < 6"
    by (simp add: floor_less_iff)
  then show "Math_round ((of_int s / 100) * 5) \<le> 5"
    by (simp add: Math_round_def)
qed

lemma todayEntry_on_scale:
  "0 \<le> moodScore parsed \<Longrightarrow> moodScore parsed \<le> 100 \<Longrightarrow> on_scale (todayEntry today parsed)"
  using Math_round_scale [of "moodScore parsed"]
  by (simp add: on_scale_def todayEntry_def Let_def)

text \<open>
  C3: for every history of at most 7 entries with values on the scale the screen stores
  (0 to 5), \<open>calculateAverageMood\<close> is 0 on the empty history (a fixed value, no division
  by zero), and otherwise it is the arithmetic mean of the values rounded to one decimal
  place: a whole number of tenths, at most half a tenth away from the mean, and on an
  exact tie the tenth of larger magnitude.
\<close>

theorem C3_average_rounded:
  "length H \<le> 7 \<Longrightarrow> list_all on_scale H \<Longrightarrow>
     (H = [] \<longrightarrow> calculateAverageMood H = 0)
   \<and> (H \<noteq> [] \<longrightarrow>
        (\<exists>n :: int. calculateAverageMood H = of_int n / 10)
        \<and> \<bar>calculateAverageMood H - arithmetic_mean H\<bar> \<le> 1 / 20
        \<and> (\<bar>calculateAverageMood H - arithmetic_mean H\<bar> = 1 / 20
             \<longrightarrow> \<bar>arithmetic_mean H\<bar> < \<bar>calculateAverageMood H\<bar>))"
proof (cases "H = []")
  case True
  then show ?thesis by (simp add: calculateAverageMood_def)
next
  case False
  then have eq: "calculateAverageMood H = toFixed1 (arithmetic_mean H)"
    by (rule avg_mean)
  show ?thesis
    unfolding eq using False toFixed1_tenth toFixed1_near toFixed1_tie by blast
qed

theorem C3_average_rounded_witness:
  "length [\<lparr>date = ''2024-01-01'', entry_mood = ''Happy'', value = 4\<rparr>,
           \<lparr>date = ''2024-01-02'', entry_mood = ''Sad'', value = 3\<rparr>,
           \<lparr>date = ''2024-01-03'', entry_mood = ''Calm'', value = 4\<rparr>,
           \<lparr>date = ''2024-01-04'', entry_mood = ''Calm'', value = 4\<rparr>] \<le> (7 :: nat)
   \<and> list_all on_scale
         [\<lparr>date = ''2024-01-01'', entry_mood = ''Happy'', value = 4\<rparr>,
          \<lparr>date = ''2024-01-02'', entry_mood = ''Sad'', value = 3\<rparr>,
          \<lparr>date = ''2024-01-03'', entry_mood = ''Calm'', value = 4\<rparr>,
          \<lparr>date = ''2024-01-04'', entry_mood = ''Calm'', value = 4\<rparr>]
   \<and> arithmetic_mean
         [\<lparr>date = ''2024-01-01'', entry_mood = ''Happy'', value = 4\<rparr>,
          \<lparr>date = ''2024-01-02'', entry_mood = ''Sad'', value = 3\<rparr>,
          \<lparr>date = ''2024-01-03'', entry_mood = ''Calm'', value = 4\<rparr>,
          \<lparr>date = ''2024-01-04'', entry_mood = ''Calm'', value = 4\<rparr>] = 375 / 100
   \<and> calculateAverageMood
         [\<lparr>date = ''2024-01-01'', entry_mood = ''Happy'', value = 4\<rparr>,
          \<lparr>date = ''2024-01-02'', entry_mood = ''Sad'', value = 3\<rparr>,
          \<lparr>date = ''2024-01-03'', entry_mood = ''Calm'', value = 4\<rparr>,
          \<lparr>date = ''2024-01-04'', entry_mood = ''Calm'', value = 4\<rparr>] = 38 / 10
   \<and> calculateAverageMood [] = 0"
  using C3_average_rounded [of "[\<lparr>date = ''2024-01-01'', entry_mood = ''Happy'', value = 4\<rparr>,
           \<lparr>date = ''2024-01-02'', entry_mood = ''Sad'', value = 3\<rparr>,
           \<lparr>date = ''2024-01-03'', entry_mood = ''Calm'', value = 4\<rparr>,
           \<lparr>date = ''2024-01-04'', entry_mood = ''Calm'', value = 4\<rparr>]"] C3_average_rounded [of "[]"]
  by (simp add: calculateAverageMood_def arithmetic_mean_def toFixed1_def on_scale_def)

section \<open>Properties of the streak\<close>

lemma streak_loop_acc: "streak_loop cur s dates = s + streak_loop cur 0 dates"
proof (induction dates arbitrary: cur s)
  case Nil
  then show ?case by simp
next
  case (Cons d ds)
  have "streak_loop (cur - 1) (s + 1) ds = (s + 1) + streak_loop (cur - 1) 0 ds"
    by (rule Cons.IH)
  moreover have "streak_loop (cur - 1) 1 ds = 1 + streak_loop (cur - 1) 0 ds"
    using Cons.IH [of "cur - 1" 1] by simp
  ultimately show ?case by simp
qed

lemma streak_loop_spec:
  "sorted_wrt (>) dates \<Longrightarrow> \<forall>d \<in> set dates. d \<le> cur \<Longrightarrow>
   (\<forall>i < streak_loop cur 0 dates. cur - int i \<in> set dates)
   \<and> cur - int (streak_loop cur 0 dates) \<notin> set dates"
proof (induction dates arbitrary: cur)
  case Nil
  then show ?case by simp
next
  case (Cons d ds)
  show ?case
  proof (cases "d = cur")
    case True
    have srt: "sorted_wrt (>) ds" using Cons.prems(1) by simp
    have below: "\<forall>d' \<in> set ds. d' \<le> cur - 1" using Cons.prems(1) True by auto
    let ?k = "streak_loop (cur - 1) 0 ds"
    from Cons.IH [OF srt below]
    have ih1: "\<forall>i < ?k. cur - 1 - int i \<in> set ds" and ih2: "cur - 1 - int ?k \<notin> set ds"
      by blast+
    have val: "streak_loop cur 0 (d # ds) = Suc ?k"
      using True streak_loop_acc [of "cur - 1" 1 ds] by simp
    have a: "\<forall>i < Suc ?k. cur - int i \<in> set (d # ds)"
    proof (intro allI impI)
      fix i assume "i < Suc ?k"
      show "cur - int i \<in> set (d # ds)"
      proof (cases i)
        case 0
        then show ?thesis using True by simp
      next
        case (Suc j)
        with \<open>i < Suc ?k\<close> have "j < ?k" by simp
        with ih1 have "cur - 1 - int j \<in> set ds" by blast
        moreover have "cur - int i = cur - 1 - int j" using Suc by simp
        ultimately have "cur - int i \<in> set ds" by (simp only:)
        then show ?thesis by simp
      qed
    qed
    have b: "cur - int (Suc ?k) \<notin> set (d # ds)"
    proof -
      have e: "cur - int (Suc ?k) = cur - 1 - int ?k" by simp
      have "cur - int (Suc ?k) \<notin> set ds" unfolding e by (rule ih2)
      moreover have "cur - int (Suc ?k) \<noteq> d" using True by simp
      ultimately show ?thesis by simp
    qed
    from a b val show ?thesis by simp
  next
    case False
    with Cons.prems have "d < cur" by simp
    moreover have "\<forall>d' \<in> set ds. d' < d" using Cons.prems(1) by auto
    ultimately have "cur \<notin> set (d # ds)" by auto
    with False show ?thesis by simp
  qed
qed

lemma streak_no_today: "today \<notin> set dates \<Longrightarrow> calculateStreak today dates = 0"
  by (cases dates) (auto simp: calculateStreak_def)

lemma streak_three:
  "\<forall>d \<in> set older. d < today - 3 \<Longrightarrow>
   calculateStreak today (today # (today - 1) # (today - 2) # older) = 3"
  by (cases older) (auto simp: calculateStreak_def)

text \<open>
  C4 (as stated, fails): for a list of distinct dates, most recent first, whose first date
  is later than today (a record stamped by a clock ahead of the browser's), the loop
  stops at once and returns 0 although today and yesterday are both recorded.
\<close>

theorem C4_future_date_counterexample:
  "\<not> (\<forall>today dates. sorted_wrt (>) dates \<longrightarrow>
        (\<forall>i < calculateStreak today dates. today - int i \<in> set dates)
        \<and> today - int (calculateStreak today dates) \<notin> set dates)"
proof
  assume a: "\<forall>today dates. sorted_wrt (>) dates \<longrightarrow>
        (\<forall>i < calculateStreak today dates. today - int i \<in> set dates)
        \<and> today - int (calculateStreak today dates) \<notin> set dates"
  have s: "sorted_wrt (>) [11, 10, 9 :: int]" by simp
  have k: "calculateStreak 10 [11, 10, 9] = 0" by (simp add: calculateStreak_def)
  from a s have "10 - int (calculateStreak 10 [11, 10, 9]) \<notin> set [11, 10, 9 :: int]" by blast
  with k show False by simp
qed

text \<open>
  C4 (amended): for every list of distinct recorded dates, none later than today, ordered
  most recent first, the streak \<open>k\<close> counts the consecutive calendar days ending at today:
  today and the \<open>k - 1\<close> days before it are all recorded and the day \<open>k\<close> days ago is not.
  With records for today, yesterday and the day before and nothing on the day after that
  going back, the streak is 3; with no record for today it is 0, whatever else is recorded.
\<close>

theorem C4_streak_consecutive_days:
  "(sorted_wrt (>) dates \<and> (\<forall>d \<in> set dates. d \<le> today) \<longrightarrow>
      (\<forall>i < calculateStreak today dates. today - int i \<in> set dates)
      \<and> today - int (calculateStreak today dates) \<notin> set dates)
   \<and> ((\<forall>d \<in> set older. d < today - 3) \<longrightarrow>
        calculateStreak today (today # (today - 1) # (today - 2) # older) = 3)
   \<and> (today \<notin> set dates' \<longrightarrow> calculateStreak today dates' = 0)"
  using streak_loop_spec [of dates today] streak_three [of older today] streak_no_today [of today dates']
  unfolding calculateStreak_def [of today dates] by blast

theorem C4_streak_consecutive_days_witness:
  "sorted_wrt (>) [20, 19, 18, 16, 15 :: int]
   \<and> list_all (\<lambda>d. d \<le> 20) [20, 19, 18, 16, 15 :: int]
   \<and> calculateStreak 20 [20, 19, 18, 16, 15] = 3
   \<and> 17 \<notin> set [20, 19, 18, 16, 15 :: int]
   \<and> calculateStreak 20 [19, 18, 17, 16, 15, 14, 13] = 0"
  using C4_streak_consecutive_days [of "[20, 19, 18, 16, 15]" 20 "[16, 15]" "[19, 18, 17, 16, 15, 14, 13]"]
  by simp

section \<open>Properties of the remote score and of the mood context\<close>

text \<open>
  C7: for every integer intensity of a remote inference result, the mood score recorded in
  the state and written to storage is \<open>clamp(0, 100, 100 - intensity * 10)\<close>, so it lies
  between 0 and 100.
\<close>

theorem C7_remote_score_clamped:
  "remoteMoodScore i = clamp 0 100 (100 - i * 10)
   \<and> 0 \<le> remoteMoodScore i \<and> remoteMoodScore i \<le> 100
   \<and> moodScore (emotionMood moodData ea) = clamp 0 100 (100 - intensity ea * 10)
   \<and> zenora_mood (saveMood (emotionMood moodData ea) ls)
       = Some (Json (moodData\<lparr>moodScore := clamp 0 100 (100 - intensity ea * 10),
                                todayMood := todayMood (emotionMood moodData ea)\<rparr>))"
  by (simp add: remoteMoodScore_def clamp_def emotionMood_def Let_def saveMood_def JSON_stringify_def)

text \<open>
  C10: every payload accepted through \<open>setMood\<close> is stored with a timestamp: the new state
  holds a payload whose \<open>at\<close> is defined, equal to the current time when the caller left
  it out and to the caller's value otherwise, and so does the record the provider then
  persists; the other fields are the caller's.
\<close>

theorem C10_setMood_timestamp:
  "(\<exists>p. setMood now m = Some p \<and> payload_at p \<noteq> None)
   \<and> setMood now (m\<lparr>payload_at := None\<rparr>) = Some (m\<lparr>payload_at := Some now\<rparr>)
   \<and> setMood now (m\<lparr>payload_at := Some a\<rparr>) = Some (m\<lparr>payload_at := Some a\<rparr>)
   \<and> (\<exists>p. zenora_today_mood (persistMood (setMood now m) ls) = Some (Json p)
          \<and> payload_at p \<noteq> None
          \<and> payload_mood p = payload_mood m \<and> payload_value p = payload_value m
          \<and> payload_source p = payload_source m)"
  by (simp add: setMood_def persistMood_def JSON_stringify_def)

section \<open>Properties of the mood history\<close>

lemma updateMoodData_eq:
  "updateMoodData t e prev = slice_last 6 (filter (\<lambda>d. date d \<noteq> t) prev) @ [e]"
  by (simp add: updateMoodData_def Let_def)

lemma date_todayEntry: "date (todayEntry t md) = t"
  by (simp add: todayEntry_def Let_def)

lemma length_slice_last: "length (slice_last n xs) \<le> n"
  by (simp add: slice_last_def)

lemma set_slice_last: "set (slice_last n xs) \<subseteq> set xs"
  by (simp add: slice_last_def set_drop_subset)

lemma slice_last_short: "length xs \<le> n \<Longrightarrow> slice_last n xs = xs"
  by (simp add: slice_last_def)

lemma length_updateMoodData: "length (updateMoodData t e prev) \<le> 7"
  using length_slice_last [of 6 "filter (\<lambda>d. date d \<noteq> t) prev"]
  by (simp add: updateMoodData_eq)

lemma recordAll_snoc:
  "recordAll (evs @ [(t, md)]) h = updateMoodData t (todayEntry t md) (recordAll evs h)"
  by (induction evs h rule: recordAll.induct) simp_all

lemma length_recordAll: "length (recordAll evs []) \<le> 7"
proof (cases evs rule: rev_cases)
  case Nil
  then show ?thesis by simp
next
  case (snoc evs' ev)
  obtain t md where "ev = (t, md)" by (cases ev)
  with snoc show ?thesis by (simp add: recordAll_snoc length_updateMoodData)
qed

lemma distinct_updateMoodData:
  assumes "distinct (map date prev)" and "date e = t"
  shows "distinct (map date (updateMoodData t e prev))"
proof -
  let ?f = "filter (\<lambda>d. date d \<noteq> t) prev"
  have "distinct (map date ?f)" using assms(1) by (rule distinct_map_filter)
  then have "distinct (map date (slice_last 6 ?f))"
    by (simp add: slice_last_def drop_map [symmetric] del: drop_map)
  moreover have "t \<notin> date ` set (slice_last 6 ?f)"
    using set_slice_last [of 6 ?f] by auto
  ultimately show ?thesis using assms(2) by (simp add: updateMoodData_eq)
qed

lemma distinct_recordAll: "distinct (map date (recordAll evs []))"
proof (induction evs rule: rev_induct)
  case Nil
  then show ?case by simp
next
  case (snoc ev evs)
  obtain t md where ev: "ev = (t, md)" by (cases ev)
  show ?case
    unfolding ev recordAll_snoc
    by (rule distinct_updateMoodData [OF snoc.IH date_todayEntry])
qed

lemma distinct_map_filter_le1:
  "distinct (map f xs) \<Longrightarrow> length (filter (\<lambda>x. f x = a) xs) \<le> 1"
proof (induction xs)
  case Nil
  then show ?case by simp
next
  case (Cons x xs)
  then have ih: "length (filter (\<lambda>x. f x = a) xs) \<le> 1" by simp
  show ?case
  proof (cases "f x = a")
    case True
    with Cons.prems have "a \<notin> f ` set xs" by simp
    then have "filter (\<lambda>x. f x = a) xs = []" by (auto simp: filter_empty_conv)
    with True show ?thesis by simp
  next
    case False
    with ih show ?thesis by simp
  qed
qed

lemma recordAll_latest:
  "e \<in> set (recordAll evs []) \<Longrightarrow>
   \<exists>md. map_of (rev evs) (date e) = Some md \<and> e = todayEntry (date e) md"
proof (induction evs arbitrary: e rule: rev_induct)
  case Nil
  then show ?case by simp
next
  case (snoc ev evs)
  obtain t md where ev: "ev = (t, md)" by (cases ev)
  let ?H = "recordAll evs []"
  from snoc.prems have "e \<in> set (slice_last 6 (filter (\<lambda>d. date d \<noteq> t) ?H)) \<or> e = todayEntry t md"
    by (auto simp: ev recordAll_snoc updateMoodData_eq)
  then show ?case
  proof
    assume "e \<in> set (slice_last 6 (filter (\<lambda>d. date d \<noteq> t) ?H))"
    with set_slice_last [of 6 "filter (\<lambda>d. date d \<noteq> t) ?H"]
    have mem: "e \<in> set ?H" and ne: "date e \<noteq> t" by auto
    from snoc.IH [OF mem] obtain md' where
      "map_of (rev evs) (date e) = Some md'" "e = todayEntry (date e) md'" by blast
    with ne show ?thesis by (auto simp: ev)
  next
    assume "e = todayEntry t md"
    then show ?thesis by (simp add: ev date_todayEntry)
  qed
qed

lemma updateMoodData_overwrite:
  assumes "date a = t"
  shows "updateMoodData t b (updateMoodData t a h) = updateMoodData t b h"
proof -
  let ?f = "filter (\<lambda>d. date d \<noteq> t) h"
  have "filter (\<lambda>d. date d \<noteq> t) (slice_last 6 ?f) = slice_last 6 ?f"
    using set_slice_last [of 6 ?f] by (auto simp: filter_id_conv)
  then have "filter (\<lambda>d. date d \<noteq> t) (updateMoodData t a h) = slice_last 6 ?f"
    using assms by (simp add: updateMoodData_eq)
  moreover have "slice_last 6 (slice_last 6 ?f) = slice_last 6 ?f"
    by (rule slice_last_short [OF length_slice_last])
  ultimately show ?thesis by (simp add: updateMoodData_eq)
qed

lemma updateMoodData_today_only:
  assumes "date b = t"
  shows "filter (\<lambda>e. date e = t) (updateMoodData t b h) = [b]"
proof -
  let ?f = "filter (\<lambda>d. date d \<noteq> t) h"
  have "filter (\<lambda>e. date e = t) (slice_last 6 ?f) = []"
    using set_slice_last [of 6 ?f] by (auto simp: filter_empty_conv)
  with assms show ?thesis by (simp add: updateMoodData_eq)
qed

lemma updateFromStorage_saved:
  "historyOf (updateFromStorage t (saveMood md ls) st)
     = Inr (updateMoodData t (todayEntry t md) (st_moodData st))"
  by (simp add: historyOf_def updateFromStorage_def saveMood_def JSON_stringify_def Let_def)

lemma updateFromStorage_saved_Inr:
  "\<exists>s'. updateFromStorage t (saveMood md ls) st = Inr s'
        \<and> st_moodData (fst s') = updateMoodData t (todayEntry t md) (st_moodData st)"
  by (simp add: updateFromStorage_def saveMood_def JSON_stringify_def Let_def)

lemma insightsRun_history:
  "historyOf (insightsRun evs s) = Inr (recordAll evs (st_moodData (fst s)))"
proof (induction evs s rule: insightsRun.induct)
  case (1 s)
  then show ?case by (simp add: historyOf_def)
next
  case (2 today moodData evs s)
  obtain s' where s': "updateFromStorage today (saveMood moodData (snd s)) (fst s) = Inr s'"
    and h: "st_moodData (fst s') = updateMoodData today (todayEntry today moodData) (st_moodData (fst s))"
    using updateFromStorage_saved_Inr by blast
  from "2.IH" [OF s'] h s' show ?case by simp
qed

lemma recordAll_distinct_dates:
  "distinct (map fst evs) \<Longrightarrow>
   recordAll evs [] = drop (length evs - 7) (map (\<lambda>ev. todayEntry (fst ev) (snd ev)) evs)"
proof (induction evs rule: rev_induct)
  case Nil
  then show ?case by simp
next
  case (snoc ev evs)
  obtain t md where ev: "ev = (t, md)" by (cases ev)
  let ?mk = "\<lambda>ev. todayEntry (fst ev) (snd ev)"
  let ?xs = "map ?mk evs"
  let ?n = "length evs"
  from snoc.prems have d: "distinct (map fst evs)" and fresh: "t \<notin> fst ` set evs"
    by (auto simp: ev)
  from snoc.IH [OF d] have H: "recordAll evs [] = drop (?n - 7) ?xs" .
  have "\<forall>e \<in> set (drop (?n - 7) ?xs). date e \<noteq> t"
  proof
    fix e assume "e \<in> set (drop (?n - 7) ?xs)"
    then have "e \<in> set ?xs" by (rule in_set_dropD)
    then obtain ev' where "ev' \<in> set evs" "e = ?mk ev'" by auto
    with fresh show "date e \<noteq> t" by (auto simp: date_todayEntry)
  qed
  then have f: "filter (\<lambda>d. date d \<noteq> t) (drop (?n - 7) ?xs) = drop (?n - 7) ?xs"
    by (simp add: filter_id_conv)
  have "?n - (?n - 7 + 6) + (?n - 7) = ?n - 6" by arith
  then have "slice_last 6 (drop (?n - 7) ?xs) = drop (?n - 6) ?xs"
    by (simp add: slice_last_def)
  with f H have "recordAll (evs @ [ev]) [] = drop (?n - 6) ?xs @ [todayEntry t md]"
    by (simp add: ev recordAll_snoc updateMoodData_eq)
  then show ?case by (simp add: ev)
qed

lemma sorted_wrt_less_distinct:
  fixes xs :: "'a :: linorder list"
  shows "sorted_wrt (<) xs \<Longrightarrow> distinct xs"
  by (induction xs) auto

lemma sorted_wrt_take_drop_less:
  fixes xs :: "'a :: linorder list"
  assumes "sorted_wrt (<) xs" "a \<in> set (take k xs)" "b \<in> set (drop k xs)"
  shows "a < b"
proof -
  have "sorted_wrt (<) (take k xs @ drop k xs)" using assms(1) by simp
  then show ?thesis using assms(2,3) unfolding sorted_wrt_append by blast
qed

text \<open>
  C5: the history holds at most one record for every calendar date, and that record is the
  sample recorded last for the date. Every history the screen reaches is \<open>recordAll\<close> of
  the recordings made; in it no date occurs twice, and each record is the entry of the last
  recording made for its date. Recording the same sample twice for a day gives the history
  that recording it once gives, with exactly one record for the day; recording sample A
  and then sample B for a day gives the history that recording B alone gives, and its
  record for the day is B.
\<close>

theorem C5_one_record_per_day:
  "length (filter (\<lambda>e. date e = D) (recordAll evs [])) \<le> 1
   \<and> historyOf (insightsRun evs (initialInsights, ls)) = Inr (recordAll evs [])
   \<and> (e \<in> set (recordAll evs []) \<longrightarrow>
        (\<exists>md. map_of (rev evs) (date e) = Some md \<and> e = todayEntry (date e) md))
   \<and> updateMoodData D (todayEntry D A) (updateMoodData D (todayEntry D A) h)
       = updateMoodData D (todayEntry D A) h
   \<and> filter (\<lambda>e. date e = D) (updateMoodData D (todayEntry D A) (updateMoodData D (todayEntry D A) h))
       = [todayEntry D A]
   \<and> updateMoodData D (todayEntry D B) (updateMoodData D (todayEntry D A) h)
       = updateMoodData D (todayEntry D B) h
   \<and> filter (\<lambda>e. date e = D) (updateMoodData D (todayEntry D B) (updateMoodData D (todayEntry D A) h))
       = [todayEntry D B]"
proof -
  have a: "length (filter (\<lambda>e. date e = D) (recordAll evs [])) \<le> 1"
    by (rule distinct_map_filter_le1 [OF distinct_recordAll])
  have b: "historyOf (insightsRun evs (initialInsights, ls)) = Inr (recordAll evs [])"
    by (simp add: insightsRun_history initialInsights_def)
  have c: "e \<in> set (recordAll evs []) \<longrightarrow>
        (\<exists>md. map_of (rev evs) (date e) = Some md \<and> e = todayEntry (date e) md)"
    using recordAll_latest by blast
  have d: "updateMoodData D (todayEntry D X) (updateMoodData D (todayEntry D A) h)
       = updateMoodData D (todayEntry D X) h" for X
    by (rule updateMoodData_overwrite [OF date_todayEntry])
  have f: "filter (\<lambda>e. date e = D) (updateMoodData D (todayEntry D X) h') = [todayEntry D X]" for X h'
    by (rule updateMoodData_today_only [OF date_todayEntry])
  from a b c d f show ?thesis by blast
qed

theorem C5_one_record_per_day_witness:
  "todayEntry ''2024-01-02'' \<lparr>moodScore = 45, todayMood = emoji_pensive @ '' Sad'', motivation = []\<rparr>
     \<in> set (recordAll same_day_twice [])
   \<and> map_of (rev same_day_twice) ''2024-01-02''
       = Some \<lparr>moodScore = 45, todayMood = emoji_pensive @ '' Sad'', motivation = []\<rparr>
   \<and> map date (recordAll same_day_twice []) = [''2024-01-01'', ''2024-01-02'']"
proof -
  let ?e = "todayEntry ''2024-01-02''
              \<lparr>moodScore = 45, todayMood = emoji_pensive @ '' Sad'', motivation = []\<rparr>"
  have m: "?e \<in> set (recordAll same_day_twice [])"
    by (simp add: same_day_twice_def updateMoodData_eq slice_last_def date_todayEntry)
  have d: "map date (recordAll same_day_twice []) = [''2024-01-01'', ''2024-01-02'']"
    by (simp add: same_day_twice_def updateMoodData_eq slice_last_def date_todayEntry)
  from m C5_one_record_per_day [of _ same_day_twice _ ?e]
  obtain md where "map_of (rev same_day_twice) (date ?e) = Some md" by blast
  then have "map_of (rev same_day_twice) ''2024-01-02''
       = Some \<lparr>moodScore = 45, todayMood = emoji_pensive @ '' Sad'', motivation = []\<rparr>"
    by (simp add: same_day_twice_def date_todayEntry)
  with m d show ?thesis by blast
qed

text \<open>
  C6: the history never holds more than 7 entries, and eviction removes the oldest first:
  after recordings for distinct dates in ascending order the dates of the history are the
  last 7 of them, and every evicted date is older than every date kept. For 9 dates the
  7 most recent are left.
\<close>

theorem C6_history_capped_at_seven:
  "length (updateMoodData today entry prev) \<le> 7
   \<and> length (recordAll evs []) \<le> 7
   \<and> historyOf (insightsRun evs (initialInsights, ls)) = Inr (recordAll evs [])
   \<and> (sorted_wrt (<) (map fst evs) \<longrightarrow>
         map date (recordAll evs []) = drop (length evs - 7) (map fst evs)
       \<and> (\<forall>old \<in> set (take (length evs - 7) (map fst evs)).
            \<forall>kept \<in> set (map date (recordAll evs [])). old < kept))"
proof -
  have a: "length (updateMoodData today entry prev) \<le> 7" by (rule length_updateMoodData)
  have b: "length (recordAll evs []) \<le> 7" by (rule length_recordAll)
  have c: "historyOf (insightsRun evs (initialInsights, ls)) = Inr (recordAll evs [])"
    by (simp add: insightsRun_history initialInsights_def)
  have d: "map date (recordAll evs []) = drop (length evs - 7) (map fst evs)
       \<and> (\<forall>old \<in> set (take (length evs - 7) (map fst evs)).
            \<forall>kept \<in> set (map date (recordAll evs [])). old < kept)"
    if s: "sorted_wrt (<) (map fst evs)"
  proof -
    from s have "distinct (map fst evs)" by (rule sorted_wrt_less_distinct)
    then have "recordAll evs [] = drop (length evs - 7) (map (\<lambda>ev. todayEntry (fst ev) (snd ev)) evs)"
      by (rule recordAll_distinct_dates)
    then have m: "map date (recordAll evs []) = drop (length evs - 7) (map fst evs)"
      by (simp add: drop_map date_todayEntry comp_def)
    show ?thesis
      unfolding m using sorted_wrt_take_drop_less [OF s] by blast
  qed
  from a b c d show ?thesis by blast
qed

theorem C6_history_capped_at_seven_witness:
  "sorted_wrt (<) (map fst nine_days)
   \<and> map date (recordAll nine_days [])
     = [''2024-01-03'', ''2024-01-04'', ''2024-01-05'', ''2024-01-06'', ''2024-01-07'',
        ''2024-01-08'', ''2024-01-09'']"
proof -
  have s: "sorted_wrt (<) (map fst nine_days)"
    by (simp add: nine_days_def)
  have "map date (recordAll nine_days []) = drop (length nine_days - 7) (map fst nine_days)"
    using C6_history_capped_at_seven [of _ _ _ nine_days] s by blast
  then have "map date (recordAll nine_days [])
     = [''2024-01-03'', ''2024-01-04'', ''2024-01-05'', ''2024-01-06'', ''2024-01-07'',
        ''2024-01-08'', ''2024-01-09'']"
    by (simp add: nine_days_def)
  with s show ?thesis by blast
qed

section \<open>Properties of the persisted state\<close>

text \<open>
  C8: the provider of the current mood reads any malformed stored text as "no mood"
  (\<open>null\<close>), its parse being inside \<open>try\<close>. The chat screen and the insights screen
  parse the text under \<open>zenora-mood\<close> with no \<open>try\<close>: for the stored text "not json",
  and for every non-empty malformed text, the cold-start read ends in the parse exception
  instead of the empty state.
\<close>

theorem C8_corrupt_storage_read:
  "initMood (ls\<lparr>zenora_today_mood := Some (Malformed s)\<rparr>) = None
   \<and> zenoraMount (emptyStorage\<lparr>zenora_mood := Some (Malformed ''not json'')\<rparr>) = Inl SyntaxError
   \<and> zenoraMount (ls\<lparr>zenora_mood := Some (Malformed (c # s))\<rparr>) = Inl SyntaxError
   \<and> insightsMount today (ls\<lparr>zenora_mood := Some (Malformed (c # s))\<rparr>) = Inl SyntaxError"
  by (simp add: initMood_def initMood_try_def zenoraMount_def loadSavedMood_def
      insightsMount_def updateFromStorage_def)

lemma updateFromStorage_saved_storage:
  "\<exists>s'. updateFromStorage t (saveMood md ls) st = Inr s'
        \<and> st_moodData (fst s') = updateMoodData t (todayEntry t md) (st_moodData st)
        \<and> zenora_mood (snd s') = Some (Json md)"
  by (simp add: updateFromStorage_def saveMood_def JSON_stringify_def Let_def)

lemma insightsRun_storage:
  "evs \<noteq> [] \<Longrightarrow> \<exists>s'. insightsRun evs s = Inr s' \<and> zenora_mood (snd s') = Some (Json (snd (last evs)))"
proof (induction evs s rule: insightsRun.induct)
  case (1 s)
  then show ?case by simp
next
  case (2 today moodData evs s)
  obtain s' where s': "updateFromStorage today (saveMood moodData (snd s)) (fst s) = Inr s'"
    and z: "zenora_mood (snd s') = Some (Json moodData)"
    using updateFromStorage_saved_storage by blast
  show ?case
  proof (cases "evs = []")
    case True
    with s' z show ?thesis by simp
  next
    case False
    from "2.IH" [OF s' False] s' False show ?thesis by simp
  qed
qed

lemma insightsMount_history:
  "zenora_mood ls = Some (Json md) \<Longrightarrow> historyOf (insightsMount today ls) = Inr [todayEntry today md]"
  by (simp add: insightsMount_def updateFromStorage_def historyOf_def initialInsights_def
      updateMoodData_eq slice_last_def Let_def)

lemma reloadHistory_run:
  assumes "evs \<noteq> []"
  shows "reloadHistory today (insightsRun evs s) = Inr [todayEntry today (snd (last evs))]"
proof -
  from insightsRun_storage [OF assms] obtain s' where
    "insightsRun evs s = Inr s'" "zenora_mood (snd s') = Some (Json (snd (last evs)))" by blast
  then show ?thesis by (simp add: reloadHistory_def insightsMount_history)
qed

lemma last_recordAll:
  "evs \<noteq> [] \<Longrightarrow> last (recordAll evs h) = todayEntry (fst (last evs)) (snd (last evs))"
  by (cases evs rule: rev_cases) (auto simp: recordAll_snoc updateMoodData_eq)

lemma zenoraMount_saved: "zenoraMount (saveMood md ls) = Inr (md, saveMood md ls)"
  by (simp add: zenoraMount_def loadSavedMood_def saveMood_def JSON_stringify_def)

text \<open>
  C9 (as stated, fails): the history is kept in memory only. After a sample on each of two
  consecutive days the history has two entries; a reload on the second day, from the
  storage those recordings wrote, gives a history of one entry.
\<close>

theorem C9_history_not_persisted_counterexample:
  "historyOf (insightsRun two_days (initialInsights, emptyStorage))
     = Inr [todayEntry ''2024-01-01'' defaultMoodData,
            todayEntry ''2024-01-02''
              \<lparr>moodScore = 45, todayMood = emoji_pensive @ '' Sad'', motivation = []\<rparr>]
   \<and> reloadHistory ''2024-01-02'' (insightsRun two_days (initialInsights, emptyStorage))
     = Inr [todayEntry ''2024-01-02''
              \<lparr>moodScore = 45, todayMood = emoji_pensive @ '' Sad'', motivation = []\<rparr>]
   \<and> reloadHistory ''2024-01-02'' (insightsRun two_days (initialInsights, emptyStorage))
     \<noteq> historyOf (insightsRun two_days (initialInsights, emptyStorage))"
proof -
  have a: "historyOf (insightsRun two_days (initialInsights, emptyStorage))
     = Inr [todayEntry ''2024-01-01'' defaultMoodData,
            todayEntry ''2024-01-02''
              \<lparr>moodScore = 45, todayMood = emoji_pensive @ '' Sad'', motivation = []\<rparr>]"
  proof -
    have "historyOf (insightsRun two_days (initialInsights, emptyStorage))
            = Inr (recordAll two_days [])"
      by (simp add: insightsRun_history initialInsights_def)
    then show ?thesis
      by (simp add: two_days_def updateMoodData_eq slice_last_def date_todayEntry)
  qed
  have b: "reloadHistory ''2024-01-02'' (insightsRun two_days (initialInsights, emptyStorage))
     = Inr [todayEntry ''2024-01-02''
              \<lparr>moodScore = 45, todayMood = emoji_pensive @ '' Sad'', motivation = []\<rparr>]"
  proof -
    have n: "two_days \<noteq> []" by (simp add: two_days_def)
    have "reloadHistory ''2024-01-02'' (insightsRun two_days (initialInsights, emptyStorage))
            = Inr [todayEntry ''2024-01-02'' (snd (last two_days))]"
      by (rule reloadHistory_run [OF n])
    then show ?thesis by (simp add: two_days_def)
  qed
  show ?thesis unfolding a b by simp
qed

text \<open>
  C9 (amended): the round trip holds for the current mood data, not for the history.
  Mood data written under \<open>zenora-mood\<close> and read back by the chat screen is the mood
  data written; the insights screen parses the same value and records it as today's
  entry; a reload builds from it a history of that one entry, which is the last entry of
  the history before the reload when the last recording was made on the day of the reload.
  Entries of earlier days are not reproduced.
\<close>

theorem C9_current_mood_round_trip:
  "zenoraMount (saveMood md ls) = Inr (md, saveMood md ls)
   \<and> historyOf (updateFromStorage today (saveMood md ls) st)
       = Inr (updateMoodData today (todayEntry today md) (st_moodData st))
   \<and> historyOf (insightsMount today (saveMood md ls)) = Inr [todayEntry today md]
   \<and> (evs \<noteq> [] \<longrightarrow>
        reloadHistory (fst (last evs)) (insightsRun evs (initialInsights, ls))
          = Inr [last (recordAll evs [])]
      \<and> historyOf (insightsRun evs (initialInsights, ls)) = Inr (recordAll evs []))"
proof -
  have a: "zenoraMount (saveMood md ls) = Inr (md, saveMood md ls)"
    by (rule zenoraMount_saved)
  have b: "historyOf (updateFromStorage today (saveMood md ls) st)
       = Inr (updateMoodData today (todayEntry today md) (st_moodData st))"
    by (rule updateFromStorage_saved)
  have c: "historyOf (insightsMount today (saveMood md ls)) = Inr [todayEntry today md]"
    by (rule insightsMount_history) (simp add: saveMood_def JSON_stringify_def)
  have d: "reloadHistory (fst (last evs)) (insightsRun evs (initialInsights, ls))
          = Inr [last (recordAll evs [])]" if "evs \<noteq> []"
    using that by (simp add: reloadHistory_run last_recordAll)
  have e: "historyOf (insightsRun evs (initialInsights, ls)) = Inr (recordAll evs [])"
    by (simp add: insightsRun_history initialInsights_def)
  from a b c d e show ?thesis by blast
qed

theorem C9_current_mood_round_trip_witness:
  "two_days \<noteq> []
   \<and> reloadHistory ''2024-01-02'' (insightsRun two_days (initialInsights, emptyStorage))
       = Inr [todayEntry ''2024-01-02''
              \<lparr>moodScore = 45, todayMood = emoji_pensive @ '' Sad'', motivation = []\<rparr>]"
proof -
  have n: "two_days \<noteq> []" by (simp add: two_days_def)
  have l: "fst (last two_days) = ''2024-01-02''" by (simp add: two_days_def)
  have r: "last (recordAll two_days []) = todayEntry ''2024-01-02''
              \<lparr>moodScore = 45, todayMood = emoji_pensive @ '' Sad'', motivation = []\<rparr>"
    by (simp add: two_days_def updateMoodData_eq)
  from n C9_current_mood_round_trip [where evs = two_days and ls = emptyStorage]
  have "reloadHistory (fst (last two_days)) (insightsRun two_days (initialInsights, emptyStorage))
          = Inr [last (recordAll two_days [])]" by blast
  with n show ?thesis unfolding l r by blast
qed

end
